theory Spec2Isabelle
  imports Main
begin

section \<open>Python values that flow through weather.py\<close>

text \<open>
  Every value the tools inspect comes out of \<^verbatim>\<open>response.json()\<close>, so the value
  universe is decoded JSON: \<^verbatim>\<open>null\<close> is Python's \<^verbatim>\<open>None\<close>, an object is a
  \<^verbatim>\<open>dict\<close> (its items in insertion order, keys distinct), an array is a \<^verbatim>\<open>list\<close>.
  Strings are kept as their UTF-8 bytes. A float is a binary fraction
  \<open>mantissa * 2 ^ exponent\<close> or one of the non-finite values the decoder accepts.
\<close>

datatype pyfloat = Finite int int | PosInf | NegInf | NaN

datatype json =
    JNull
  | JBool bool
  | JInt int
  | JFloat pyfloat
  | JStr string
  | JArr "json list"
  | JObj "(string \<times> json) list"

text \<open>The exception classes that the modelled statements can raise.\<close>

datatype exn =
    KeyError string
  | TypeError
  | AttributeError
  | DictSliceError
  | RequestError
  | HTTPStatusError nat
  | JSONDecodeError

type_synonym 'a result = "exn + 'a"

fun bindE :: "'a result \<Rightarrow> ('a \<Rightarrow> 'b result) \<Rightarrow> 'b result" where
  "bindE (Inl e) f = Inl e"
| "bindE (Inr x) f = f x"

text \<open>A comprehension or loop body run over a list: the first exception ends it.\<close>

fun collect :: "('a \<Rightarrow> 'b result) \<Rightarrow> 'a list \<Rightarrow> 'b list result" where
  "collect f [] = Inr []"
| "collect f (x # xs) =
     (case f x of
        Inl e \<Rightarrow> Inl e
      | Inr y \<Rightarrow> (case collect f xs of Inl e \<Rightarrow> Inl e | Inr ys \<Rightarrow> Inr (y # ys)))"

subsection \<open>Truth value, membership, subscription\<close>

text \<open>\<^verbatim>\<open>bool(v)\<close>, as \<^verbatim>\<open>not data\<close> and \<^verbatim>\<open>not data["features"]\<close> use it.\<close>

fun float_nonzero :: "pyfloat \<Rightarrow> bool" where
  "float_nonzero (Finite m e) = (m \<noteq> 0)"
| "float_nonzero PosInf = True"
| "float_nonzero NegInf = True"
| "float_nonzero NaN = True"

fun truthy :: "json \<Rightarrow> bool" where
  "truthy JNull = False"
| "truthy (JBool b) = b"
| "truthy (JInt i) = (i \<noteq> 0)"
| "truthy (JFloat f) = float_nonzero f"
| "truthy (JStr s) = (s \<noteq> [])"
| "truthy (JArr xs) = (xs \<noteq> [])"
| "truthy (JObj kvs) = (kvs \<noteq> [])"

fun starts_with :: "string \<Rightarrow> string \<Rightarrow> bool" where
  "starts_with [] s = True"
| "starts_with (c # cs) [] = False"
| "starts_with (c # cs) (d # ds) = (c = d \<and> starts_with cs ds)"

fun substring :: "string \<Rightarrow> string \<Rightarrow> bool" where
  "substring k [] = (k = [])"
| "substring k (d # ds) = (starts_with k (d # ds) \<or> substring k ds)"

text \<open>
  \<^verbatim>\<open>key in v\<close> for a string key: a key test on a dict, an element test on a list, a
  substring test on a string, and \<^verbatim>\<open>TypeError\<close> (argument is not iterable) on
  \<^verbatim>\<open>None\<close>, booleans and numbers.
\<close>

fun py_in :: "string \<Rightarrow> json \<Rightarrow> bool result" where
  "py_in k (JObj kvs) = Inr (k \<in> set (map fst kvs))"
| "py_in k (JArr xs) = Inr (JStr k \<in> set xs)"
| "py_in k (JStr s) = Inr (substring k s)"
| "py_in k JNull = Inl TypeError"
| "py_in k (JBool b) = Inl TypeError"
| "py_in k (JInt i) = Inl TypeError"
| "py_in k (JFloat f) = Inl TypeError"

text \<open>
  \<^verbatim>\<open>v[key]\<close> for a string key: \<^verbatim>\<open>KeyError\<close> on a dict without the key,
  \<^verbatim>\<open>TypeError\<close> on everything that is not a dict.
\<close>

fun py_getitem :: "json \<Rightarrow> string \<Rightarrow> json result" where
  "py_getitem (JObj kvs) k =
     (case map_of kvs k of None \<Rightarrow> Inl (KeyError k) | Some v \<Rightarrow> Inr v)"
| "py_getitem (JArr xs) k = Inl TypeError"
| "py_getitem (JStr s) k = Inl TypeError"
| "py_getitem JNull k = Inl TypeError"
| "py_getitem (JBool b) k = Inl TypeError"
| "py_getitem (JInt i) k = Inl TypeError"
| "py_getitem (JFloat f) k = Inl TypeError"

text \<open>
  \<^verbatim>\<open>v.get(key, default)\<close>: only a dict has the method; the default is used when the
  key is absent and only then.
\<close>

fun py_get :: "json \<Rightarrow> string \<Rightarrow> json \<Rightarrow> json result" where
  "py_get (JObj kvs) k d = Inr (case map_of kvs k of None \<Rightarrow> d | Some v \<Rightarrow> v)"
| "py_get (JArr xs) k d = Inl AttributeError"
| "py_get (JStr s) k d = Inl AttributeError"
| "py_get JNull k d = Inl AttributeError"
| "py_get (JBool b) k d = Inl AttributeError"
| "py_get (JInt i) k d = Inl AttributeError"
| "py_get (JFloat f) k d = Inl AttributeError"

text \<open>
  Iteration (\<^verbatim>\<open>for x in v\<close>): the elements of a list, the keys of a dict, the
  characters of a string; \<^verbatim>\<open>TypeError\<close> otherwise.
\<close>

fun py_iter :: "json \<Rightarrow> json list result" where
  "py_iter (JArr xs) = Inr xs"
| "py_iter (JObj kvs) = Inr (map (\<lambda>kv. JStr (fst kv)) kvs)"
| "py_iter (JStr s) = Inr (map (\<lambda>c. JStr [c]) s)"
| "py_iter JNull = Inl TypeError"
| "py_iter (JBool b) = Inl TypeError"
| "py_iter (JInt i) = Inl TypeError"
| "py_iter (JFloat f) = Inl TypeError"

text \<open>
  The slice \<^verbatim>\<open>v[:3]\<close>. On a dict the slice is used as a key: \<^verbatim>\<open>TypeError\<close>
  (unhashable) up to Python 3.11 and \<^verbatim>\<open>KeyError\<close> from 3.12, kept apart here as
  \<open>DictSliceError\<close>.
\<close>

fun py_slice3 :: "json \<Rightarrow> json result" where
  "py_slice3 (JArr xs) = Inr (JArr (take 3 xs))"
| "py_slice3 (JStr s) = Inr (JStr (take 3 s))"
| "py_slice3 (JObj kvs) = Inl DictSliceError"
| "py_slice3 JNull = Inl TypeError"
| "py_slice3 (JBool b) = Inl TypeError"
| "py_slice3 (JInt i) = Inl TypeError"
| "py_slice3 (JFloat f) = Inl TypeError"

subsection \<open>Text\<close>

definition nl :: string where
  "nl = [CHR 0x0A]"

fun show_nat :: "nat \<Rightarrow> string" where
  "show_nat n =
     (if n < 10 then [''0123456789'' ! n]
      else show_nat (n div 10) @ [''0123456789'' ! (n mod 10)])"

definition show_int :: "int \<Rightarrow> string" where
  "show_int i = (if i < 0 then ''-'' @ show_nat (nat (- i)) else show_nat (nat i))"

text \<open>
  \<^verbatim>\<open>str(v)\<close>, which is also what an f-string field without a format spec inserts.
  The text of a float, a list or a dict (shortest round-trip digits, \<^verbatim>\<open>repr\<close> of the
  elements) is the interpreter's business and is taken as the parameter \<open>r\<close>.
\<close>

fun py_str :: "(json \<Rightarrow> string) \<Rightarrow> json \<Rightarrow> string" where
  "py_str r JNull = ''None''"
| "py_str r (JBool b) = (if b then ''True'' else ''False'')"
| "py_str r (JInt i) = show_int i"
| "py_str r (JStr s) = s"
| "py_str r (JFloat f) = r (JFloat f)"
| "py_str r (JArr xs) = r (JArr xs)"
| "py_str r (JObj kvs) = r (JObj kvs)"

text \<open>\<^verbatim>\<open>sep.join(parts)\<close>.\<close>

fun join :: "string \<Rightarrow> string list \<Rightarrow> string" where
  "join sep [] = []"
| "join sep [x] = x"
| "join sep (x # y # ys) = x @ sep @ join sep (y # ys)"

section \<open>The HTTP client\<close>

text \<open>
  What \<^verbatim>\<open>httpx\<close> does is outside the repository. A request either fails before a
  response exists (connection failure, timeout, unusable URL) or yields a response with
  a status code and a body that decodes as JSON or does not. The transport answers a
  request knowing the requests made before it. \<^verbatim>\<open>raise_for_status\<close> accepts exactly
  the 2xx codes.
\<close>

datatype request_failure = ConnectFailed | TimedOut | InvalidURL

datatype reply = RequestFailed request_failure | Response nat "json option"

datatype request =
  Get (req_url: json) (req_headers: "(string \<times> string) list") (req_timeout: "nat option")

type_synonym transport = "request list \<Rightarrow> request \<Rightarrow> reply"

definition is_success :: "nat \<Rightarrow> bool" where
  "is_success status = (200 \<le> status \<and> status \<le> 299)"

definition API_BASE_URL :: string where
  "API_BASE_URL = ''https://api.weather.gov''"

definition USER_AGENT :: string where
  "USER_AGENT = ''weather-app/1.0''"

definition nws_headers :: "(string \<times> string) list" where
  "nws_headers = [(''User-Agent'', USER_AGENT), (''Accept'', ''application/geo+json'')]"

text \<open>The three statements inside \<^verbatim>\<open>try\<close> in \<^verbatim>\<open>make_nws_request\<close>.\<close>

fun nws_try :: "reply \<Rightarrow> json result" where
  "nws_try (RequestFailed f) = Inl RequestError"
| "nws_try (Response status body) =
     (if \<not> is_success status then Inl (HTTPStatusError status)
      else case body of None \<Rightarrow> Inl JSONDecodeError | Some j \<Rightarrow> Inr j)"

text \<open>
  \<^verbatim>\<open>client.get\<close> builds the request from its URL argument before it sends anything:
  an argument that is not a string (\<^verbatim>\<open>None\<close>, a number, a list, a dict) raises
  \<^verbatim>\<open>TypeError\<close> there, inside the \<^verbatim>\<open>try\<close> block, and no request leaves.
\<close>

fun is_str :: "json \<Rightarrow> bool" where
  "is_str (JStr s) = True"
| "is_str JNull = False"
| "is_str (JBool b) = False"
| "is_str (JInt i) = False"
| "is_str (JFloat f) = False"
| "is_str (JArr xs) = False"
| "is_str (JObj kvs) = False"

text \<open>
  \<^verbatim>\<open>make_nws_request\<close>: the \<^verbatim>\<open>except Exception\<close> clause turns every exception of the
  \<^verbatim>\<open>try\<close> block into \<^verbatim>\<open>None\<close>. The second component is the list of requests sent so
  far: this one is added when the URL is a string, and nothing is added otherwise.
\<close>

definition nws_request :: "json \<Rightarrow> request" where
  "nws_request url = Get url nws_headers (Some 30)"

definition make_nws_request :: "transport \<Rightarrow> json \<Rightarrow> request list \<Rightarrow> json \<times> request list" where
  "make_nws_request net url sent =
     (if is_str url
      then (case nws_try (net sent (nws_request url)) of Inl e \<Rightarrow> JNull | Inr j \<Rightarrow> j,
            sent @ [nws_request url])
      else (JNull, sent))"

section \<open>Alerts\<close>

text \<open>The text of the f-string of \<^verbatim>\<open>format_alert\<close> around its five fields.\<close>

definition alert_block :: "string \<Rightarrow> string \<Rightarrow> string \<Rightarrow> string \<Rightarrow> string \<Rightarrow> string" where
  "alert_block event area severity description instruction =
     nl @ ''        Event: '' @ event
     @ nl @ ''        Area: '' @ area
     @ nl @ ''        Severity: '' @ severity
     @ nl @ ''        Description: '' @ description
     @ nl @ ''        Instructions: '' @ instruction
     @ nl @ ''        ''"

definition format_alert :: "(json \<Rightarrow> string) \<Rightarrow> json \<Rightarrow> string result" where
  "format_alert r feature =
     bindE (py_getitem feature ''properties'') (\<lambda>props.
     bindE (py_get props ''event'' (JStr ''Unknown'')) (\<lambda>event.
     bindE (py_get props ''areaDesc'' (JStr ''Unknown'')) (\<lambda>area.
     bindE (py_get props ''severity'' (JStr ''Unknown'')) (\<lambda>severity.
     bindE (py_get props ''description'' (JStr ''No description available'')) (\<lambda>description.
     bindE (py_get props ''instruction'' (JStr ''No specific instructions provided'')) (\<lambda>instruction.
       Inr (alert_block (py_str r event) (py_str r area) (py_str r severity)
              (py_str r description) (py_str r instruction))))))))"

text \<open>
  The text that one field contributes: \<^verbatim>\<open>str(props.get(k, fallback))\<close> for a dict
  \<open>props\<close>.
\<close>

definition alert_field :: "(json \<Rightarrow> string) \<Rightarrow> (string \<times> json) list \<Rightarrow> string \<Rightarrow> string \<Rightarrow> string" where
  "alert_field r props k fallback =
     (case map_of props k of None \<Rightarrow> fallback | Some v \<Rightarrow> py_str r v)"

definition no_alerts_found :: string where
  "no_alerts_found = ''No alerts found or unable to fetch alerts''"

definition no_active_alerts :: string where
  "no_active_alerts = ''No active weather alerts for the specified state.''"

definition alert_sep :: string where
  "alert_sep = nl @ ''----'' @ nl"

text \<open>The part of \<^verbatim>\<open>get_weather_alerts\<close> after the fetch (lines 51 to 58).\<close>

definition alerts_text :: "(json \<Rightarrow> string) \<Rightarrow> json \<Rightarrow> string result" where
  "alerts_text r data =
     (if \<not> truthy data then Inr no_alerts_found
      else case py_in ''features'' data of
        Inl e \<Rightarrow> Inl e
      | Inr False \<Rightarrow> Inr no_alerts_found
      | Inr True \<Rightarrow>
          bindE (py_getitem data ''features'') (\<lambda>features.
            if \<not> truthy features then Inr no_active_alerts
            else bindE (py_iter features) (\<lambda>fs.
                 bindE (collect (format_alert r) fs) (\<lambda>alerts.
                   Inr (join alert_sep alerts)))))"

definition alerts_url :: "string \<Rightarrow> json" where
  "alerts_url state = JStr (API_BASE_URL @ ''/alerts/active/area/'' @ state)"

definition get_weather_alerts ::
  "(json \<Rightarrow> string) \<Rightarrow> transport \<Rightarrow> string \<Rightarrow> request list \<Rightarrow> string result \<times> request list" where
  "get_weather_alerts r net state sent =
     (let (data, sent1) = make_nws_request net (alerts_url state) sent
      in (alerts_text r data, sent1))"

section \<open>Forecast\<close>

definition unable_forecast :: string where
  "unable_forecast = ''Unable to fetch forecast data.''"

definition forecast_sep :: string where
  "forecast_sep = nl @ ''---'' @ nl"

text \<open>
  The source file holds the four bytes C3 82 C2 B0 between the temperature and its unit.
\<close>

definition degree_mark :: string where
  "degree_mark = [CHR 0xC3, CHR 0x82, CHR 0xC2, CHR 0xB0]"

definition period_block :: "string \<Rightarrow> string \<Rightarrow> string \<Rightarrow> string \<Rightarrow> string \<Rightarrow> string \<Rightarrow> string" where
  "period_block name temperature unit speed direction detailed =
     nl @ ''            '' @ name @ '':''
     @ nl @ ''            Temperature: '' @ temperature @ degree_mark @ unit
     @ nl @ ''            Wind: '' @ speed @ '' '' @ direction
     @ nl @ ''            Forecast: '' @ detailed
     @ nl @ ''        ''"

text \<open>The f-string of the loop body; the subscriptions are evaluated left to right.\<close>

definition format_period :: "(json \<Rightarrow> string) \<Rightarrow> json \<Rightarrow> string result" where
  "format_period r period =
     bindE (py_getitem period ''name'') (\<lambda>name.
     bindE (py_getitem period ''temperature'') (\<lambda>temperature.
     bindE (py_getitem period ''temperatureUnit'') (\<lambda>unit.
     bindE (py_getitem period ''windSpeed'') (\<lambda>speed.
     bindE (py_getitem period ''windDirection'') (\<lambda>direction.
     bindE (py_getitem period ''detailedForecast'') (\<lambda>detailed.
       Inr (period_block (py_str r name) (py_str r temperature) (py_str r unit)
              (py_str r speed) (py_str r direction) (py_str r detailed))))))))"

text \<open>Lines 83 to 94: the periods of the second response, the first three formatted.\<close>

definition forecast_text :: "(json \<Rightarrow> string) \<Rightarrow> json \<Rightarrow> string result" where
  "forecast_text r forecast_data =
     bindE (py_getitem forecast_data ''properties'') (\<lambda>props.
     bindE (py_getitem props ''periods'') (\<lambda>periods.
     bindE (py_slice3 periods) (\<lambda>first3.
     bindE (py_iter first3) (\<lambda>ps.
     bindE (collect (format_period r) ps) (\<lambda>forecasts.
       Inr (join forecast_sep forecasts))))))"

text \<open>
  The condition of line 72, \<^verbatim>\<open>not data or "properties" not in data or "forecast" not in
  data["properties"]\<close>, with the short-circuit order of \<^verbatim>\<open>or\<close>.
\<close>

definition points_rejected :: "json \<Rightarrow> bool result" where
  "points_rejected data =
     (if \<not> truthy data then Inr True
      else case py_in ''properties'' data of
        Inl e \<Rightarrow> Inl e
      | Inr False \<Rightarrow> Inr True
      | Inr True \<Rightarrow>
          bindE (py_getitem data ''properties'') (\<lambda>props.
          bindE (py_in ''forecast'' props) (\<lambda>present. Inr (\<not> present))))"

definition points_url :: "(json \<Rightarrow> string) \<Rightarrow> pyfloat \<Rightarrow> pyfloat \<Rightarrow> json" where
  "points_url r lat lon =
     JStr (API_BASE_URL @ ''/points/'' @ py_str r (JFloat lat) @ '','' @ py_str r (JFloat lon)
             @ ''/forecast'')"

definition get_forecast ::
  "(json \<Rightarrow> string) \<Rightarrow> transport \<Rightarrow> pyfloat \<Rightarrow> pyfloat \<Rightarrow> request list
     \<Rightarrow> string result \<times> request list" where
  "get_forecast r net lat lon sent =
     (let (data, sent1) = make_nws_request net (points_url r lat lon) sent
      in case points_rejected data of
           Inl e \<Rightarrow> (Inl e, sent1)
         | Inr True \<Rightarrow> (Inr unable_forecast, sent1)
         | Inr False \<Rightarrow>
             (case bindE (py_getitem data ''properties'') (\<lambda>props. py_getitem props ''forecast'') of
                Inl e \<Rightarrow> (Inl e, sent1)
              | Inr forecast_url \<Rightarrow>
                  (let (forecast_data, sent2) = make_nws_request net forecast_url sent1
                   in if \<not> truthy forecast_data then (Inr unable_forecast, sent2)
                      else (forecast_text r forecast_data, sent2))))"

section \<open>Hourly forecast of the second provider\<close>

text \<open>
  \<^verbatim>\<open>get_indian_forecast\<close> has no \<^verbatim>\<open>try\<close> and no status check: a failed request and an
  undecodable body raise, any decoded body is returned as \<^verbatim>\<open>str(data)\<close>.
\<close>

definition hourly_request :: "(json \<Rightarrow> string) \<Rightarrow> pyfloat \<Rightarrow> pyfloat \<Rightarrow> request" where
  "hourly_request r lat lon =
     Get (JStr (''https://api.open-meteo.com/v1/forecast?latitude='' @ py_str r (JFloat lat)
                  @ ''&longitude='' @ py_str r (JFloat lon) @ ''&hourly=temperature_2m''))
         [] None"

definition get_indian_forecast ::
  "(json \<Rightarrow> string) \<Rightarrow> transport \<Rightarrow> pyfloat \<Rightarrow> pyfloat \<Rightarrow> request list
     \<Rightarrow> string result \<times> request list" where
  "get_indian_forecast r net lat lon sent =
     (case net sent (hourly_request r lat lon) of
        RequestFailed f \<Rightarrow> Inl RequestError
      | Response status None \<Rightarrow> Inl JSONDecodeError
      | Response status (Some data) \<Rightarrow> Inr (py_str r data),
      sent @ [hourly_request r lat lon])"

section \<open>Scripted transports and a fixed renderer\<close>

text \<open>
  A mocked transport answers the k-th request of a run with the k-th reply of a script
  and refuses the connection once the script is used up. \<open>no_render\<close> stands in for
  the interpreter's text of floats, lists and dicts where a run needs one.
\<close>

definition script :: "reply list \<Rightarrow> transport" where
  "script replies sent req =
     (if length sent < length replies then replies ! length sent
      else RequestFailed ConnectFailed)"

definition no_render :: "json \<Rightarrow> string" where
  "no_render v = ''?''"

definition ok :: "json \<Rightarrow> reply" where
  "ok body = Response 200 (Some body)"

text \<open>A well-formed forecast period for the runs below.\<close>

definition sample_period :: "string \<Rightarrow> int \<Rightarrow> json" where
  "sample_period name temperature =
     JObj [(''name'', JStr name), (''temperature'', JInt temperature),
           (''temperatureUnit'', JStr ''F''), (''windSpeed'', JStr ''5 mph''),
           (''windDirection'', JStr ''SW''), (''detailedForecast'', JStr ''Clear.'')]"

section \<open>Auxiliary facts\<close>

lemma collect_Inr_iff: "collect f xs = Inr ys \<longleftrightarrow> map f xs = map Inr ys"
proof (induction xs arbitrary: ys)
  case Nil
  then show ?case by auto
next
  case (Cons x xs)
  show ?case
  proof (cases "f x")
    case (Inl e)
    then show ?thesis by (cases ys) auto
  next
    case (Inr y)
    then show ?thesis using Cons.IH
      by (cases ys; cases "collect f xs") auto
  qed
qed


lemma make_nws_request_str:
  "make_nws_request net (JStr s) sent =
     (case nws_try (net sent (nws_request (JStr s))) of Inl e \<Rightarrow> JNull | Inr j \<Rightarrow> j,
      sent @ [nws_request (JStr s)])"
  by (simp add: make_nws_request_def)


lemma make_nws_request_failed:
  "nws_try (net sent (nws_request u)) = Inl e \<Longrightarrow> fst (make_nws_request net u sent) = JNull"
  by (simp add: make_nws_request_def)

lemma get_weather_alerts_fst:
  "fst (get_weather_alerts r net state sent)
     = alerts_text r (fst (make_nws_request net (alerts_url state) sent))"
  by (simp add: get_weather_alerts_def split: prod.splits)

lemma get_weather_alerts_snd:
  "snd (get_weather_alerts r net state sent) = sent @ [nws_request (alerts_url state)]"
  by (simp add: get_weather_alerts_def make_nws_request_def alerts_url_def split: prod.splits)

lemma alerts_text_falsy: "\<not> truthy data \<Longrightarrow> alerts_text r data = Inr no_alerts_found"
  by (simp add: alerts_text_def)

lemma alerts_text_obj_no_key:
  "map_of kvs ''features'' = None \<Longrightarrow> alerts_text r (JObj kvs) = Inr no_alerts_found"
  by (auto simp: alerts_text_def map_of_eq_None_iff)

lemma alerts_text_obj_key:
  "map_of kvs ''features'' = Some v \<Longrightarrow>
   alerts_text r (JObj kvs) =
     (if \<not> truthy v then Inr no_active_alerts
      else bindE (py_iter v) (\<lambda>fs.
           bindE (collect (format_alert r) fs) (\<lambda>alerts. Inr (join alert_sep alerts))))"
proof -
  assume a: "map_of kvs ''features'' = Some v"
  then have "''features'' \<in> set (map fst kvs)" "kvs \<noteq> []"
    by (force dest: map_of_SomeD)+
  with a show ?thesis by (simp add: alerts_text_def)
qed

lemma alert_block_head: "\<exists>t. alert_block e a s d i = CHR 0x0A # t"
  by (simp add: alert_block_def nl_def)

lemma py_get_field:
  "py_str r (case map_of props k of None \<Rightarrow> JStr d | Some v \<Rightarrow> v) = alert_field r props k d"
  by (simp add: alert_field_def split: option.splits)

lemma format_alert_obj:
  "map_of kvs ''properties'' = Some (JObj props) \<Longrightarrow>
   format_alert r (JObj kvs) =
     Inr (alert_block (alert_field r props ''event'' ''Unknown'')
            (alert_field r props ''areaDesc'' ''Unknown'')
            (alert_field r props ''severity'' ''Unknown'')
            (alert_field r props ''description'' ''No description available'')
            (alert_field r props ''instruction'' ''No specific instructions provided''))"
  by (simp add: format_alert_def py_get_field)

lemma format_alert_no_properties:
  "map_of kvs ''properties'' = None \<Longrightarrow> format_alert r (JObj kvs) = Inl (KeyError ''properties'')"
  by (simp add: format_alert_def)

lemma format_alert_not_obj:
  "\<forall>kvs. feature \<noteq> JObj kvs \<Longrightarrow> format_alert r feature = Inl TypeError"
  by (cases feature) (simp_all add: format_alert_def)

lemma format_alert_props_not_obj:
  "map_of kvs ''properties'' = Some p \<Longrightarrow> \<forall>props. p \<noteq> JObj props \<Longrightarrow>
   format_alert r (JObj kvs) = Inl AttributeError"
  by (cases p) (simp_all add: format_alert_def)

lemma format_alert_Inr:
  assumes "format_alert r f = Inr s"
  shows "\<exists>kvs props. f = JObj kvs \<and> map_of kvs ''properties'' = Some (JObj props)"
proof (cases "\<exists>kvs. f = JObj kvs")
  case False
  then show ?thesis using assms format_alert_not_obj [of f r] by simp
next
  case True
  then obtain kvs where f: "f = JObj kvs" by blast
  show ?thesis
  proof (cases "map_of kvs ''properties''")
    case None
    then show ?thesis using assms f by (simp add: format_alert_no_properties)
  next
    case (Some p)
    show ?thesis
    proof (cases "\<exists>props. p = JObj props")
      case True
      then show ?thesis using Some f by blast
    next
      case False
      then show ?thesis using assms f Some format_alert_props_not_obj [of kvs p r] by simp
    qed
  qed
qed

lemma format_alert_head: "format_alert r f = Inr s \<Longrightarrow> \<exists>t. s = CHR 0x0A # t"
proof -
  assume a: "format_alert r f = Inr s"
  then obtain kvs props where "f = JObj kvs" "map_of kvs ''properties'' = Some (JObj props)"
    using format_alert_Inr by blast
  with a obtain e ar sv d i where "s = alert_block e ar sv d i"
    by (auto simp: format_alert_obj)
  then show ?thesis using alert_block_head by simp
qed

lemma join_head: "join sep ((c # t) # ys) = c # tl (join sep ((c # t) # ys))"
  by (cases ys) simp_all

lemma joined_alerts_head:
  assumes "bindE (collect (format_alert r) fs) (\<lambda>alerts. Inr (join sep alerts)) = Inr s"
    and "fs \<noteq> []"
  shows "\<exists>t. s = CHR 0x0A # t"
proof -
  from assms obtain ys where ys: "collect (format_alert r) fs = Inr ys" "s = join sep ys"
    by (cases "collect (format_alert r) fs") auto
  from assms(2) obtain f fs' where fs: "fs = f # fs'" by (cases fs) auto
  with ys(1) obtain y ys' where y: "format_alert r f = Inr y" "ys = y # ys'"
    by (auto split: sum.splits)
  from format_alert_head [OF y(1)] obtain t where "y = CHR 0x0A # t" by blast
  with y ys show ?thesis using join_head [of sep "CHR 0x0A" t ys'] by auto
qed

lemma truthy_iter_not_literal:
  assumes "truthy v"
  shows "bindE (py_iter v) (\<lambda>fs. bindE (collect (format_alert r) fs)
           (\<lambda>alerts. Inr (join alert_sep alerts))) \<noteq> Inr no_active_alerts"
proof
  assume eq: "bindE (py_iter v) (\<lambda>fs. bindE (collect (format_alert r) fs)
           (\<lambda>alerts. Inr (join alert_sep alerts))) = Inr no_active_alerts"
  then obtain fs where fs: "py_iter v = Inr fs"
    "bindE (collect (format_alert r) fs) (\<lambda>alerts. Inr (join alert_sep alerts)) = Inr no_active_alerts"
    by (cases "py_iter v") auto
  from assms fs(1) have "fs \<noteq> []" by (cases v) auto
  from joined_alerts_head [OF fs(2) this] show False
    by (simp add: no_active_alerts_def)
qed

lemma alerts_text_not_container:
  assumes "alerts_text r data = Inr s" "\<forall>kvs. data \<noteq> JObj kvs"
  shows "s = no_alerts_found"
  using assms by (cases data) (auto simp: alerts_text_def split: if_splits bool.splits)

lemma no_alerts_neq: "no_alerts_found \<noteq> no_active_alerts"
  by (simp add: no_alerts_found_def no_active_alerts_def)

lemma alerts_text_no_active_iff:
  "alerts_text r data = Inr no_active_alerts \<longleftrightarrow>
     (\<exists>kvs v. data = JObj kvs \<and> map_of kvs ''features'' = Some v \<and> \<not> truthy v)"
proof (cases "\<exists>kvs. data = JObj kvs")
  case False
  then show ?thesis using alerts_text_not_container [of r data no_active_alerts] no_alerts_neq
    by auto
next
  case True
  then obtain kvs where d: "data = JObj kvs" by blast
  show ?thesis
  proof (cases "map_of kvs ''features''")
    case None
    then show ?thesis using d no_alerts_neq by (simp add: alerts_text_obj_no_key)
  next
    case (Some v)
    then show ?thesis using d truthy_iter_not_literal [of v r]
      by (simp add: alerts_text_obj_key)
  qed
qed

lemma get_forecast_unfold:
  "get_forecast r net lat lon sent =
     (case points_rejected (fst (make_nws_request net (points_url r lat lon) sent)) of
        Inl e \<Rightarrow> (Inl e, sent @ [nws_request (points_url r lat lon)])
      | Inr True \<Rightarrow> (Inr unable_forecast, sent @ [nws_request (points_url r lat lon)])
      | Inr False \<Rightarrow>
          (case bindE (py_getitem (fst (make_nws_request net (points_url r lat lon) sent)) ''properties'')
                  (\<lambda>props. py_getitem props ''forecast'') of
             Inl e \<Rightarrow> (Inl e, sent @ [nws_request (points_url r lat lon)])
           | Inr u \<Rightarrow>
               (if \<not> truthy (fst (make_nws_request net u (sent @ [nws_request (points_url r lat lon)])))
                then Inr unable_forecast
                else forecast_text r
                       (fst (make_nws_request net u (sent @ [nws_request (points_url r lat lon)]))),
                snd (make_nws_request net u (sent @ [nws_request (points_url r lat lon)])))))"
proof -
  have "snd (make_nws_request net (points_url r lat lon) sent)
          = sent @ [nws_request (points_url r lat lon)]"
    by (simp add: points_url_def make_nws_request_str)
  then show ?thesis
    by (auto simp: get_forecast_def split: prod.splits sum.splits bool.splits)
qed

lemma points_rejected_falsy: "\<not> truthy data \<Longrightarrow> points_rejected data = Inr True"
  by (simp add: points_rejected_def)

lemma points_rejected_no_properties:
  "map_of kvs ''properties'' = None \<Longrightarrow> points_rejected (JObj kvs) = Inr True"
  by (auto simp: points_rejected_def map_of_eq_None_iff)

lemma points_rejected_properties:
  assumes "map_of kvs ''properties'' = Some p"
  shows "points_rejected (JObj kvs) = bindE (py_in ''forecast'' p) (\<lambda>present. Inr (\<not> present))"
proof -
  from assms have "''properties'' \<in> set (map fst kvs)" "kvs \<noteq> []"
    by (force dest: map_of_SomeD)+
  with assms show ?thesis by (simp add: points_rejected_def)
qed

lemma points_rejected_no_forecast:
  "map_of kvs ''properties'' = Some (JObj ps) \<Longrightarrow> map_of ps ''forecast'' = None \<Longrightarrow>
   points_rejected (JObj kvs) = Inr True"
  by (auto simp: points_rejected_properties map_of_eq_None_iff)

lemma points_rejected_forecast:
  "map_of kvs ''properties'' = Some (JObj ps) \<Longrightarrow> map_of ps ''forecast'' = Some u \<Longrightarrow>
   points_rejected (JObj kvs) = Inr False"
  by (force simp: points_rejected_properties dest: map_of_SomeD)




lemma get_forecast_with_url:
  assumes "fst (make_nws_request net (points_url r lat lon) sent) = JObj kvs"
    and "map_of kvs ''properties'' = Some (JObj ps)"
    and "map_of ps ''forecast'' = Some u"
  shows "get_forecast r net lat lon sent =
           (if \<not> truthy (fst (make_nws_request net u (sent @ [nws_request (points_url r lat lon)])))
            then Inr unable_forecast
            else forecast_text r
                   (fst (make_nws_request net u (sent @ [nws_request (points_url r lat lon)]))),
            snd (make_nws_request net u (sent @ [nws_request (points_url r lat lon)])))"
  using assms by (simp add: get_forecast_unfold points_rejected_forecast)



lemma collect_all_ok: "\<forall>x \<in> set xs. \<exists>y. f x = Inr y \<Longrightarrow> \<exists>ys. collect f xs = Inr ys"
  by (induction xs) auto

lemma key_present: "k \<in> fst ` set kvs \<Longrightarrow> \<exists>v. map_of kvs k = Some v"
  using map_of_eq_None_iff [of kvs k] by auto

lemma format_period_obj:
  assumes "{''name'', ''temperature'', ''temperatureUnit'', ''windSpeed'', ''windDirection'',
            ''detailedForecast''} \<subseteq> fst ` set f"
  shows "\<exists>text. format_period r (JObj f) = Inr text"
proof -
  from assms obtain a where a: "map_of f ''name'' = Some a" using key_present [of "''name''" f] by auto
  from assms obtain b where b: "map_of f ''temperature'' = Some b"
    using key_present [of "''temperature''" f] by auto
  from assms obtain c where c: "map_of f ''temperatureUnit'' = Some c"
    using key_present [of "''temperatureUnit''" f] by auto
  from assms obtain d where d: "map_of f ''windSpeed'' = Some d"
    using key_present [of "''windSpeed''" f] by auto
  from assms obtain e where e: "map_of f ''windDirection'' = Some e"
    using key_present [of "''windDirection''" f] by auto
  from assms obtain g where g: "map_of f ''detailedForecast'' = Some g"
    using key_present [of "''detailedForecast''" f] by auto
  from a b c d e g show ?thesis by (simp add: format_period_def)
qed

lemma forecast_text_periods:
  assumes "map_of fkvs ''properties'' = Some (JObj fprops)"
    and "map_of fprops ''periods'' = Some (JArr periods)"
  shows "forecast_text r (JObj fkvs) =
           bindE (collect (format_period r) (take 3 periods))
             (\<lambda>forecasts. Inr (join forecast_sep forecasts))"
  using assms by (simp add: forecast_text_def)

section \<open>The fetch helper\<close>



section \<open>Weather alerts\<close>

text \<open>
  Claim C4. For every state string, \<^verbatim>\<open>get_weather_alerts\<close> returns
  "No alerts found or unable to fetch alerts" whenever the helper yields no result or
  the fetched response is an object without a "features" key.
\<close>

theorem alerts_fetch_failure_fallback:
  assumes "fst (make_nws_request net (alerts_url state) sent) = data"
    and "data = JNull \<or> (\<exists>kvs. data = JObj kvs \<and> ''features'' \<notin> fst ` set kvs)"
  shows "fst (get_weather_alerts r net state sent)
           = Inr ''No alerts found or unable to fetch alerts''"
proof -
  from assms(2) have "alerts_text r data = Inr no_alerts_found"
  proof
    assume "data = JNull"
    then show ?thesis by (simp add: alerts_text_falsy)
  next
    assume "\<exists>kvs. data = JObj kvs \<and> ''features'' \<notin> fst ` set kvs"
    then obtain kvs where "data = JObj kvs" "map_of kvs ''features'' = None"
      by (auto simp: map_of_eq_None_iff)
    then show ?thesis by (simp add: alerts_text_obj_no_key)
  qed
  then show ?thesis
    using assms(1) by (simp add: get_weather_alerts_fst no_alerts_found_def)
qed


theorem alerts_fetch_failure_fallback_witness:
  "fst (get_weather_alerts no_render (script [RequestFailed TimedOut]) ''CA'' [])
     = Inr ''No alerts found or unable to fetch alerts''
   \<and> fst (get_weather_alerts no_render (script [ok (JObj [(''type'', JStr ''FeatureCollection'')])])
          ''CA'' [])
     = Inr ''No alerts found or unable to fetch alerts''"
proof -
  have a: "fst (make_nws_request (script [RequestFailed TimedOut]) (alerts_url ''CA'') []) = JNull"
    by (simp add: make_nws_request_def alerts_url_def points_url_def script_def)
  have b: "fst (make_nws_request (script [ok (JObj [(''type'', JStr ''FeatureCollection'')])])
             (alerts_url ''CA'') []) = JObj [(''type'', JStr ''FeatureCollection'')]"
    by (simp add: make_nws_request_def alerts_url_def points_url_def script_def ok_def is_success_def)
  have c: "''features'' \<notin> fst ` set [(''type'', JStr ''FeatureCollection'')]"
    by simp
  show ?thesis
    using alerts_fetch_failure_fallback [OF a, of no_render]
      alerts_fetch_failure_fallback [OF b, of no_render] c
    by simp
qed

text \<open>
  Claim C3. \<^verbatim>\<open>get_weather_alerts\<close> returns "No active weather alerts for the specified
  state." if and only if the fetch produced an object with a "features" key whose value
  is empty in Python's sense (\<^verbatim>\<open>not data["features"]\<close>); when that value is a sequence,
  if and only if the sequence is empty.
\<close>

theorem no_active_alerts_iff:
  assumes "fst (make_nws_request net (alerts_url state) sent) = data"
  shows "(fst (get_weather_alerts r net state sent)
            = Inr ''No active weather alerts for the specified state.''
          \<longleftrightarrow> (\<exists>kvs v. data = JObj kvs \<and> map_of kvs ''features'' = Some v \<and> \<not> truthy v))
       \<and> (\<forall>kvs fs. data = JObj kvs \<and> map_of kvs ''features'' = Some (JArr fs) \<longrightarrow>
            (fst (get_weather_alerts r net state sent)
               = Inr ''No active weather alerts for the specified state.''
             \<longleftrightarrow> fs = []))"
proof -
  have "fst (get_weather_alerts r net state sent) = alerts_text r data"
    using assms by (simp add: get_weather_alerts_fst)
  then show ?thesis
    using alerts_text_no_active_iff [of r data]
    by (auto simp: no_active_alerts_def)
qed


theorem no_active_alerts_iff_witness:
  "fst (get_weather_alerts no_render (script [ok (JObj [(''features'', JArr [])])]) ''CA'' [])
     = Inr ''No active weather alerts for the specified state.''
   \<and> fst (get_weather_alerts no_render
            (script [ok (JObj [(''features'', JArr [JObj [(''properties'', JObj [])]])])]) ''CA'' [])
     \<noteq> Inr ''No active weather alerts for the specified state.''"
proof -
  have a: "fst (make_nws_request (script [ok (JObj [(''features'', JArr [])])]) (alerts_url ''CA'') [])
             = JObj [(''features'', JArr [])]"
    by (simp add: make_nws_request_def alerts_url_def points_url_def script_def ok_def is_success_def)
  have b: "fst (make_nws_request
                 (script [ok (JObj [(''features'', JArr [JObj [(''properties'', JObj [])]])])])
                 (alerts_url ''CA'') [])
             = JObj [(''features'', JArr [JObj [(''properties'', JObj [])]])]"
    by (simp add: make_nws_request_def alerts_url_def points_url_def script_def ok_def is_success_def)
  show ?thesis
    using no_active_alerts_iff [OF a, of no_render] no_active_alerts_iff [OF b, of no_render]
    by simp
qed

text \<open>
  Claim C9. For a non-empty feature sequence of a successful alerts fetch, the result is
  the features' formatted texts joined with "\n----\n", one text per feature, in the
  order of the sequence.
\<close>

theorem alerts_joined_in_order:
  assumes "fst (make_nws_request net (alerts_url state) sent) = JObj kvs"
    and "map_of kvs ''features'' = Some (JArr fs)"
    and "fs \<noteq> []"
    and "map (format_alert r) fs = map Inr alerts"
  shows "fst (get_weather_alerts r net state sent)
           = Inr (join (CHR 0x0A # ''----'' @ [CHR 0x0A]) alerts)
         \<and> length alerts = length fs"
proof -
  from assms(4) have c: "collect (format_alert r) fs = Inr alerts"
    by (simp add: collect_Inr_iff)
  from assms(4) have "length (map (format_alert r) fs) = length (map Inr alerts :: string result list)"
    by simp
  then have l: "length alerts = length fs" by simp
  from assms(1,2,3) c have "fst (get_weather_alerts r net state sent) = Inr (join alert_sep alerts)"
    by (simp add: get_weather_alerts_fst alerts_text_obj_key)
  with l show ?thesis by (simp add: alert_sep_def nl_def)
qed

theorem alerts_joined_in_order_witness:
  "fst (get_weather_alerts no_render
          (script [ok (JObj [(''features'',
             JArr [JObj [(''properties'', JObj [(''event'', JStr ''Flood Warning'')])],
                   JObj [(''properties'', JObj [(''event'', JStr ''Heat Advisory''),
                                                (''severity'', JNull)])]])])])
          ''CA'' [])
     = Inr (alert_block ''Flood Warning'' ''Unknown'' ''Unknown'' ''No description available''
              ''No specific instructions provided''
            @ CHR 0x0A # ''----'' @ [CHR 0x0A]
            @ alert_block ''Heat Advisory'' ''Unknown'' ''None'' ''No description available''
              ''No specific instructions provided'')"
proof -
  let ?f1 = "JObj [(''properties'', JObj [(''event'', JStr ''Flood Warning'')])]"
  let ?f2 = "JObj [(''properties'', JObj [(''event'', JStr ''Heat Advisory''), (''severity'', JNull)])]"
  let ?body = "[(''features'', JArr [?f1, ?f2])]"
  have a: "fst (make_nws_request (script [ok (JObj ?body)]) (alerts_url ''CA'') []) = JObj ?body"
    by (simp add: make_nws_request_def alerts_url_def points_url_def script_def ok_def is_success_def)
  have b: "map_of ?body ''features'' = Some (JArr [?f1, ?f2])" by simp
  have c: "[?f1, ?f2] \<noteq> []" by simp
  have d: "map (format_alert no_render) [?f1, ?f2]
             = map Inr [alert_block ''Flood Warning'' ''Unknown'' ''Unknown''
                          ''No description available'' ''No specific instructions provided'',
                        alert_block ''Heat Advisory'' ''Unknown'' ''None''
                          ''No description available'' ''No specific instructions provided'']"
    by (simp add: format_alert_def)
  show ?thesis
    using alerts_joined_in_order [OF a b c d] by simp
qed

section \<open>The alert formatter\<close>

text \<open>
  Claim C2, as stated, promises a text for every feature. A feature that carries its
  fields at the top level and has no "properties" key raises \<^verbatim>\<open>KeyError\<close>.
\<close>

theorem format_alert_requires_properties_counterexample:
  "format_alert no_render (JObj [(''event'', JStr ''Flood Warning'')]) = Inl (KeyError ''properties'')"
  by (simp add: format_alert_def)

text \<open>
  Claim C2, amended. For every feature whose "properties" entry is an object,
  \<^verbatim>\<open>format_alert\<close> returns the fixed template in which each of event, areaDesc,
  severity, description, instruction is the text of its value when the key is present
  and the documented fallback when the key is absent.
\<close>

theorem format_alert_fallbacks:
  assumes "map_of feature ''properties'' = Some (JObj props)"
  shows "format_alert r (JObj feature) =
           Inr (alert_block
                  (case map_of props ''event'' of None \<Rightarrow> ''Unknown'' | Some v \<Rightarrow> py_str r v)
                  (case map_of props ''areaDesc'' of None \<Rightarrow> ''Unknown'' | Some v \<Rightarrow> py_str r v)
                  (case map_of props ''severity'' of None \<Rightarrow> ''Unknown'' | Some v \<Rightarrow> py_str r v)
                  (case map_of props ''description'' of
                     None \<Rightarrow> ''No description available'' | Some v \<Rightarrow> py_str r v)
                  (case map_of props ''instruction'' of
                     None \<Rightarrow> ''No specific instructions provided'' | Some v \<Rightarrow> py_str r v))"
  using assms by (simp add: format_alert_obj alert_field_def)

theorem format_alert_fallbacks_witness:
  "format_alert no_render
     (JObj [(''properties'', JObj [(''event'', JStr ''Flood Warning''), (''severity'', JStr ''Severe'')])])
   = Inr (alert_block ''Flood Warning'' ''Unknown'' ''Severe'' ''No description available''
            ''No specific instructions provided'')"
proof -
  have a: "map_of [(''properties'', JObj [(''event'', JStr ''Flood Warning''), (''severity'', JStr ''Severe'')])]
             ''properties'' = Some (JObj [(''event'', JStr ''Flood Warning''), (''severity'', JStr ''Severe'')])"
    by simp
  show ?thesis using format_alert_fallbacks [OF a, of no_render] by simp
qed

text \<open>
  Claim C10. \<^verbatim>\<open>format_alert\<close> needs a "properties" key: a feature without one raises
  (\<^verbatim>\<open>KeyError\<close> when it is an object). With a properties object the returned text is
  the template below, where the fallback stands only for an absent key; a key that is
  present contributes the text of its value, and that text is "None" for \<^verbatim>\<open>null\<close>.
\<close>

theorem format_alert_null_and_properties:
  "((\<nexists>kvs v. feature = JObj kvs \<and> map_of kvs ''properties'' = Some v)
       \<longrightarrow> (\<exists>e. format_alert r feature = Inl e))
   \<and> (\<forall>kvs. feature = JObj kvs \<and> map_of kvs ''properties'' = None
         \<longrightarrow> format_alert r feature = Inl (KeyError ''properties''))
   \<and> (\<forall>kvs props. feature = JObj kvs \<and> map_of kvs ''properties'' = Some (JObj props) \<longrightarrow>
         format_alert r feature =
           Inr (CHR 0x0A # ''        Event: ''
                  @ (case map_of props ''event'' of None \<Rightarrow> ''Unknown'' | Some v \<Rightarrow> py_str r v)
                @ CHR 0x0A # ''        Area: ''
                  @ (case map_of props ''areaDesc'' of None \<Rightarrow> ''Unknown'' | Some v \<Rightarrow> py_str r v)
                @ CHR 0x0A # ''        Severity: ''
                  @ (case map_of props ''severity'' of None \<Rightarrow> ''Unknown'' | Some v \<Rightarrow> py_str r v)
                @ CHR 0x0A # ''        Description: ''
                  @ (case map_of props ''description'' of
                       None \<Rightarrow> ''No description available'' | Some v \<Rightarrow> py_str r v)
                @ CHR 0x0A # ''        Instructions: ''
                  @ (case map_of props ''instruction'' of
                       None \<Rightarrow> ''No specific instructions provided'' | Some v \<Rightarrow> py_str r v)
                @ CHR 0x0A # ''        ''))
   \<and> py_str r JNull = ''None''
   \<and> (\<forall>props. (\<forall>k \<in> {''event'', ''areaDesc'', ''severity'', ''description'', ''instruction''}.
                  map_of props k = Some JNull)
         \<longrightarrow> format_alert r (JObj [(''properties'', JObj props)]) =
               Inr (CHR 0x0A # ''        Event: None''
                    @ CHR 0x0A # ''        Area: None''
                    @ CHR 0x0A # ''        Severity: None''
                    @ CHR 0x0A # ''        Description: None''
                    @ CHR 0x0A # ''        Instructions: None''
                    @ CHR 0x0A # ''        ''))"
proof -
  have 1: "(\<nexists>kvs v. feature = JObj kvs \<and> map_of kvs ''properties'' = Some v)
             \<longrightarrow> (\<exists>e. format_alert r feature = Inl e)"
  proof (cases "\<exists>kvs. feature = JObj kvs")
    case True
    then obtain kvs where "feature = JObj kvs" by blast
    then show ?thesis
      by (cases "map_of kvs ''properties''") (auto simp: format_alert_no_properties)
  next
    case False
    then show ?thesis using format_alert_not_obj [of feature r] by simp
  qed
  have 2: "\<forall>kvs. feature = JObj kvs \<and> map_of kvs ''properties'' = None
         \<longrightarrow> format_alert r feature = Inl (KeyError ''properties'')"
    by (simp add: format_alert_no_properties)
  have 3: "\<forall>kvs props. feature = JObj kvs \<and> map_of kvs ''properties'' = Some (JObj props) \<longrightarrow>
         format_alert r feature =
           Inr (CHR 0x0A # ''        Event: ''
                  @ (case map_of props ''event'' of None \<Rightarrow> ''Unknown'' | Some v \<Rightarrow> py_str r v)
                @ CHR 0x0A # ''        Area: ''
                  @ (case map_of props ''areaDesc'' of None \<Rightarrow> ''Unknown'' | Some v \<Rightarrow> py_str r v)
                @ CHR 0x0A # ''        Severity: ''
                  @ (case map_of props ''severity'' of None \<Rightarrow> ''Unknown'' | Some v \<Rightarrow> py_str r v)
                @ CHR 0x0A # ''        Description: ''
                  @ (case map_of props ''description'' of
                       None \<Rightarrow> ''No description available'' | Some v \<Rightarrow> py_str r v)
                @ CHR 0x0A # ''        Instructions: ''
                  @ (case map_of props ''instruction'' of
                       None \<Rightarrow> ''No specific instructions provided'' | Some v \<Rightarrow> py_str r v)
                @ CHR 0x0A # ''        '')"
    by (simp add: format_alert_obj alert_field_def alert_block_def nl_def)
  have 4: "py_str r JNull = ''None''" by simp
  have 5: "\<forall>props. (\<forall>k \<in> {''event'', ''areaDesc'', ''severity'', ''description'', ''instruction''}.
                  map_of props k = Some JNull)
         \<longrightarrow> format_alert r (JObj [(''properties'', JObj props)]) =
               Inr (CHR 0x0A # ''        Event: None''
                    @ CHR 0x0A # ''        Area: None''
                    @ CHR 0x0A # ''        Severity: None''
                    @ CHR 0x0A # ''        Description: None''
                    @ CHR 0x0A # ''        Instructions: None''
                    @ CHR 0x0A # ''        '')"
    by (simp add: format_alert_obj alert_field_def alert_block_def nl_def)
  from 1 2 3 4 5 show ?thesis by blast
qed

theorem format_alert_null_and_properties_witness:
  "format_alert no_render
     (JObj [(''properties'', JObj [(''event'', JNull), (''description'', JNull)])])
     = Inr (CHR 0x0A # ''        Event: None''
            @ CHR 0x0A # ''        Area: Unknown''
            @ CHR 0x0A # ''        Severity: Unknown''
            @ CHR 0x0A # ''        Description: None''
            @ CHR 0x0A # ''        Instructions: No specific instructions provided''
            @ CHR 0x0A # ''        '')
   \<and> format_alert no_render (JObj [(''id'', JStr ''urn:oid:2.49.0.1.840.0'')])
     = Inl (KeyError ''properties'')
   \<and> format_alert no_render
       (JObj [(''properties'', JObj [(''event'', JNull), (''areaDesc'', JNull), (''severity'', JNull),
                                    (''description'', JNull), (''instruction'', JNull)])])
     = Inr (CHR 0x0A # ''        Event: None''
            @ CHR 0x0A # ''        Area: None''
            @ CHR 0x0A # ''        Severity: None''
            @ CHR 0x0A # ''        Description: None''
            @ CHR 0x0A # ''        Instructions: None''
            @ CHR 0x0A # ''        '')"
  using format_alert_null_and_properties
          [of "JObj [(''properties'', JObj [(''event'', JNull), (''description'', JNull)])]" no_render]
        format_alert_null_and_properties
          [of "JObj [(''id'', JStr ''urn:oid:2.49.0.1.840.0'')]" no_render]
  by simp

section \<open>The forecast\<close>




text \<open>
  Claim C1, as stated, maps every missing field of either response to the fallback
  text. A non-empty second response without "properties" raises \<^verbatim>\<open>KeyError\<close> at
  line 83.
\<close>

theorem forecast_second_response_counterexample:
  "fst (get_forecast no_render
          (script [ok (JObj [(''properties'', JObj [(''forecast'', JStr ''https://forecast'')])]),
                   ok (JObj [(''type'', JStr ''Feature'')])])
          (Finite 40 0) (Finite (- 75) 0) [])
     = Inl (KeyError ''properties'')"
  by (simp add: get_forecast_unfold make_nws_request_def alerts_url_def points_url_def script_def ok_def is_success_def
        points_rejected_def forecast_text_def nws_request_def)

text \<open>
  Claim C1, amended. \<^verbatim>\<open>get_forecast\<close> returns "Unable to fetch forecast data."
  and raises nothing when the first fetch fails or gives an empty value, when the first
  response is an object without "properties" or with a "properties" object without
  "forecast", and whenever the second fetch is made and fails or gives an empty value.
\<close>

theorem forecast_fail_soft:
  assumes "fst (make_nws_request net (points_url r lat lon) sent) = data"
  shows "((\<exists>e. nws_try (net sent (nws_request (points_url r lat lon))) = Inl e)
            \<longrightarrow> fst (get_forecast r net lat lon sent) = Inr ''Unable to fetch forecast data.'')
       \<and> (\<not> truthy data
            \<longrightarrow> fst (get_forecast r net lat lon sent) = Inr ''Unable to fetch forecast data.'')
       \<and> (\<forall>kvs. data = JObj kvs \<and> map_of kvs ''properties'' = None
            \<longrightarrow> fst (get_forecast r net lat lon sent) = Inr ''Unable to fetch forecast data.'')
       \<and> (\<forall>kvs ps. data = JObj kvs \<and> map_of kvs ''properties'' = Some (JObj ps)
               \<and> map_of ps ''forecast'' = None
            \<longrightarrow> fst (get_forecast r net lat lon sent) = Inr ''Unable to fetch forecast data.'')
       \<and> (\<forall>kvs ps u. data = JObj kvs \<and> map_of kvs ''properties'' = Some (JObj ps)
               \<and> map_of ps ''forecast'' = Some u
               \<and> (\<exists>e. nws_try (net (sent @ [nws_request (points_url r lat lon)]) (nws_request u)) = Inl e)
            \<longrightarrow> fst (get_forecast r net lat lon sent) = Inr ''Unable to fetch forecast data.'')
       \<and> (\<forall>kvs ps u. data = JObj kvs \<and> map_of kvs ''properties'' = Some (JObj ps)
               \<and> map_of ps ''forecast'' = Some u
               \<and> \<not> truthy (fst (make_nws_request net u (sent @ [nws_request (points_url r lat lon)])))
            \<longrightarrow> fst (get_forecast r net lat lon sent) = Inr ''Unable to fetch forecast data.'')"
proof -
  let ?R = "fst (get_forecast r net lat lon sent)"
  let ?U = "Inr ''Unable to fetch forecast data.'' :: string result"
  have 2: "\<not> truthy data \<longrightarrow> ?R = ?U"
    using assms by (simp add: get_forecast_unfold points_rejected_falsy unable_forecast_def)
  have "(\<exists>e. nws_try (net sent (nws_request (points_url r lat lon))) = Inl e) \<longrightarrow> data = JNull"
    using assms by (auto simp: make_nws_request_def)
  with 2 have 1: "(\<exists>e. nws_try (net sent (nws_request (points_url r lat lon))) = Inl e) \<longrightarrow> ?R = ?U"
    by auto
  have 3: "\<forall>kvs. data = JObj kvs \<and> map_of kvs ''properties'' = None \<longrightarrow> ?R = ?U"
    using assms by (simp add: get_forecast_unfold points_rejected_no_properties unable_forecast_def)
  have 4: "\<forall>kvs ps. data = JObj kvs \<and> map_of kvs ''properties'' = Some (JObj ps)
               \<and> map_of ps ''forecast'' = None \<longrightarrow> ?R = ?U"
    using assms by (auto simp: get_forecast_unfold points_rejected_no_forecast unable_forecast_def)
  have 6: "\<forall>kvs ps u. data = JObj kvs \<and> map_of kvs ''properties'' = Some (JObj ps)
               \<and> map_of ps ''forecast'' = Some u
               \<and> \<not> truthy (fst (make_nws_request net u (sent @ [nws_request (points_url r lat lon)])))
            \<longrightarrow> ?R = ?U"
    using assms by (auto simp: get_forecast_with_url unable_forecast_def)
  have "\<forall>u. (\<exists>e. nws_try (net (sent @ [nws_request (points_url r lat lon)]) (nws_request u)) = Inl e)
          \<longrightarrow> \<not> truthy (fst (make_nws_request net u (sent @ [nws_request (points_url r lat lon)])))"
    by (auto simp: make_nws_request_def)
  with 6 have 5: "\<forall>kvs ps u. data = JObj kvs \<and> map_of kvs ''properties'' = Some (JObj ps)
               \<and> map_of ps ''forecast'' = Some u
               \<and> (\<exists>e. nws_try (net (sent @ [nws_request (points_url r lat lon)]) (nws_request u)) = Inl e)
            \<longrightarrow> ?R = ?U"
    by blast
  from 1 2 3 4 5 6 show ?thesis by blast
qed

theorem forecast_fail_soft_witness:
  "fst (get_forecast no_render (script [Response 503 None]) (Finite 40 0) (Finite (- 75) 0) [])
     = Inr ''Unable to fetch forecast data.''
   \<and> fst (get_forecast no_render (script [ok (JObj [(''properties'', JObj [])])])
            (Finite 40 0) (Finite (- 75) 0) [])
     = Inr ''Unable to fetch forecast data.''
   \<and> fst (get_forecast no_render
            (script [ok (JObj [(''properties'', JObj [(''forecast'', JStr ''https://forecast'')])]),
                     RequestFailed TimedOut])
            (Finite 40 0) (Finite (- 75) 0) [])
     = Inr ''Unable to fetch forecast data.''
   \<and> fst (get_forecast no_render
            (script [ok (JObj [(''properties'', JObj [(''forecast'', JStr ''https://forecast'')])]),
                     ok (JObj [])])
            (Finite 40 0) (Finite (- 75) 0) [])
     = Inr ''Unable to fetch forecast data.''"
proof -
  let ?url = "points_url no_render (Finite 40 0) (Finite (- 75) 0)"
  let ?points = "JObj [(''properties'', JObj [(''forecast'', JStr ''https://forecast'')])]"
  have a: "fst (make_nws_request (script [Response 503 None]) ?url []) = JNull"
    by (simp add: make_nws_request_def alerts_url_def points_url_def script_def is_success_def)
  have b: "fst (make_nws_request (script [ok (JObj [(''properties'', JObj [])])]) ?url [])
             = JObj [(''properties'', JObj [])]"
    by (simp add: make_nws_request_def alerts_url_def points_url_def script_def ok_def is_success_def)
  have c: "fst (make_nws_request (script [ok ?points, RequestFailed TimedOut]) ?url []) = ?points"
    by (simp add: make_nws_request_def alerts_url_def points_url_def script_def ok_def is_success_def)
  have c': "nws_try (script [ok ?points, RequestFailed TimedOut] ([] @ [nws_request ?url])
              (nws_request (JStr ''https://forecast''))) = Inl RequestError"
    by (simp add: script_def)
  have d: "fst (make_nws_request (script [ok ?points, ok (JObj [])]) ?url []) = ?points"
    by (simp add: make_nws_request_def alerts_url_def points_url_def script_def ok_def is_success_def)
  have d': "\<not> truthy (fst (make_nws_request (script [ok ?points, ok (JObj [])])
              (JStr ''https://forecast'') ([] @ [nws_request ?url])))"
    by (simp add: make_nws_request_def alerts_url_def points_url_def script_def ok_def is_success_def)
  show ?thesis
    using forecast_fail_soft [OF a] forecast_fail_soft [OF b] forecast_fail_soft [OF c]
      forecast_fail_soft [OF d] c' d'
    by simp
qed

text \<open>
  Claim C6. When the second response carries a period sequence of length n whose first
  three members (or all of them, if fewer) are objects with the six fields of the
  template, the result is the join with "\n---\n" of exactly min(n, 3) texts, the
  formatted first periods in order; what follows the third period is never looked at.
\<close>

theorem forecast_first_three_periods:
  assumes "fst (make_nws_request net (points_url r lat lon) sent) = JObj kvs"
    and "map_of kvs ''properties'' = Some (JObj ps)"
    and "map_of ps ''forecast'' = Some u"
    and "fst (make_nws_request net u (sent @ [nws_request (points_url r lat lon)])) = JObj fkvs"
    and "map_of fkvs ''properties'' = Some (JObj fprops)"
    and "map_of fprops ''periods'' = Some (JArr periods)"
    and "\<forall>p \<in> set (take 3 periods). \<exists>f. p = JObj f \<and>
           {''name'', ''temperature'', ''temperatureUnit'', ''windSpeed'', ''windDirection'',
            ''detailedForecast''} \<subseteq> fst ` set f"
  shows "\<exists>texts. fst (get_forecast r net lat lon sent)
                    = Inr (join (CHR 0x0A # ''---'' @ [CHR 0x0A]) texts)
           \<and> map (format_period r) (take 3 periods) = map Inr texts
           \<and> length texts = min (length periods) 3"
proof -
  have "\<forall>p \<in> set (take 3 periods). \<exists>text. format_period r p = Inr text"
  proof
    fix p
    assume "p \<in> set (take 3 periods)"
    with assms(7) obtain f where "p = JObj f"
      and "{''name'', ''temperature'', ''temperatureUnit'', ''windSpeed'', ''windDirection'',
            ''detailedForecast''} \<subseteq> fst ` set f"
      by meson
    then show "\<exists>text. format_period r p = Inr text"
      using format_period_obj [of f r] by simp
  qed
  then obtain texts where t: "collect (format_period r) (take 3 periods) = Inr texts"
    using collect_all_ok by blast
  then have m: "map (format_period r) (take 3 periods) = map Inr texts"
    by (simp add: collect_Inr_iff)
  then have "length (map (format_period r) (take 3 periods))
               = length (map Inr texts :: string result list)"
    by simp
  then have l: "length texts = min (length periods) 3" by simp
  from assms(5) have "fkvs \<noteq> []" by auto
  with assms t have "fst (get_forecast r net lat lon sent) = Inr (join forecast_sep texts)"
    by (simp add: get_forecast_with_url forecast_text_periods)
  with m l show ?thesis by (auto simp: forecast_sep_def nl_def)
qed

theorem forecast_first_three_periods_witness:
  "fst (get_forecast no_render
          (script [ok (JObj [(''properties'', JObj [(''forecast'', JStr ''https://forecast'')])]),
                   ok (JObj [(''properties'', JObj [(''periods'',
                         JArr [sample_period ''Today'' 72, sample_period ''Tonight'' 55,
                               sample_period ''Friday'' 70, JNull])])])])
          (Finite 40 0) (Finite (- 75) 0) [])
     = Inr (period_block ''Today'' ''72'' ''F'' ''5 mph'' ''SW'' ''Clear.''
            @ CHR 0x0A # ''---'' @ [CHR 0x0A]
            @ period_block ''Tonight'' ''55'' ''F'' ''5 mph'' ''SW'' ''Clear.''
            @ CHR 0x0A # ''---'' @ [CHR 0x0A]
            @ period_block ''Friday'' ''70'' ''F'' ''5 mph'' ''SW'' ''Clear.'')
   \<and> fst (get_forecast no_render
          (script [ok (JObj [(''properties'', JObj [(''forecast'', JStr ''https://forecast'')])]),
                   ok (JObj [(''properties'', JObj [(''periods'',
                         JArr [sample_period ''Today'' (- 3)])])])])
          (Finite 40 0) (Finite (- 75) 0) [])
     = Inr (period_block ''Today'' ''-3'' ''F'' ''5 mph'' ''SW'' ''Clear.'')"
proof -
  let ?url = "points_url no_render (Finite 40 0) (Finite (- 75) 0)"
  let ?ps = "[(''forecast'', JStr ''https://forecast'')]"
  let ?kvs = "[(''properties'', JObj ?ps)]"
  let ?four = "[sample_period ''Today'' 72, sample_period ''Tonight'' 55,
                sample_period ''Friday'' 70, JNull]"
  let ?one = "[sample_period ''Today'' (- 3)]"
  let ?net4 = "script [ok (JObj ?kvs), ok (JObj [(''properties'', JObj [(''periods'', JArr ?four)])])]"
  let ?net1 = "script [ok (JObj ?kvs), ok (JObj [(''properties'', JObj [(''periods'', JArr ?one)])])]"
  have a4: "fst (make_nws_request ?net4 ?url []) = JObj ?kvs"
    by (simp add: make_nws_request_def alerts_url_def points_url_def script_def ok_def is_success_def)
  have a1: "fst (make_nws_request ?net1 ?url []) = JObj ?kvs"
    by (simp add: make_nws_request_def alerts_url_def points_url_def script_def ok_def is_success_def)
  have b: "map_of ?kvs ''properties'' = Some (JObj ?ps)" by simp
  have c: "map_of ?ps ''forecast'' = Some (JStr ''https://forecast'')" by simp
  have d4: "fst (make_nws_request ?net4 (JStr ''https://forecast'') ([] @ [nws_request ?url]))
              = JObj [(''properties'', JObj [(''periods'', JArr ?four)])]"
    by (simp add: make_nws_request_def alerts_url_def points_url_def script_def ok_def is_success_def)
  have d1: "fst (make_nws_request ?net1 (JStr ''https://forecast'') ([] @ [nws_request ?url]))
              = JObj [(''properties'', JObj [(''periods'', JArr ?one)])]"
    by (simp add: make_nws_request_def alerts_url_def points_url_def script_def ok_def is_success_def)
  have e4: "map_of [(''properties'', JObj [(''periods'', JArr ?four)])] ''properties''
              = Some (JObj [(''periods'', JArr ?four)])" by simp
  have e1: "map_of [(''properties'', JObj [(''periods'', JArr ?one)])] ''properties''
              = Some (JObj [(''periods'', JArr ?one)])" by simp
  have f4: "map_of [(''periods'', JArr ?four)] ''periods'' = Some (JArr ?four)" by simp
  have f1: "map_of [(''periods'', JArr ?one)] ''periods'' = Some (JArr ?one)" by simp
  have g4: "\<forall>p \<in> set (take 3 ?four). \<exists>f. p = JObj f \<and>
           {''name'', ''temperature'', ''temperatureUnit'', ''windSpeed'', ''windDirection'',
            ''detailedForecast''} \<subseteq> fst ` set f"
    by (simp add: sample_period_def)
  have g1: "\<forall>p \<in> set (take 3 ?one). \<exists>f. p = JObj f \<and>
           {''name'', ''temperature'', ''temperatureUnit'', ''windSpeed'', ''windDirection'',
            ''detailedForecast''} \<subseteq> fst ` set f"
    by (simp add: sample_period_def)
  have fmt: "format_period no_render (sample_period n t)
               = Inr (period_block n (show_int t) ''F'' ''5 mph'' ''SW'' ''Clear.'')" for n t
    by (simp add: format_period_def sample_period_def)
  have s72: "show_int 72 = ''72''" "show_int 55 = ''55''" "show_int 70 = ''70''"
    "show_int (- 3) = ''-3''"
    by (simp_all add: show_int_def)
  from forecast_first_three_periods [OF a4 b c d4 e4 f4 g4]
  have r4: "fst (get_forecast no_render ?net4 (Finite 40 0) (Finite (- 75) 0) [])
     = Inr (period_block ''Today'' ''72'' ''F'' ''5 mph'' ''SW'' ''Clear.''
            @ CHR 0x0A # ''---'' @ [CHR 0x0A]
            @ period_block ''Tonight'' ''55'' ''F'' ''5 mph'' ''SW'' ''Clear.''
            @ CHR 0x0A # ''---'' @ [CHR 0x0A]
            @ period_block ''Friday'' ''70'' ''F'' ''5 mph'' ''SW'' ''Clear.'')"
    by (auto simp: fmt s72 map_eq_Cons_conv)
  from forecast_first_three_periods [OF a1 b c d1 e1 f1 g1]
  have r1: "fst (get_forecast no_render ?net1 (Finite 40 0) (Finite (- 75) 0) [])
     = Inr (period_block ''Today'' ''-3'' ''F'' ''5 mph'' ''SW'' ''Clear.'')"
    by (auto simp: fmt s72 map_eq_Cons_conv)
  from r4 r1 show ?thesis by simp
qed

section \<open>The hourly forecast\<close>

text \<open>
  Claim C8. \<^verbatim>\<open>get_indian_forecast\<close> handles no error: a failed request and a body
  that does not decode end the call with the exception, and every decoded body,
  whatever the status, is returned as its \<^verbatim>\<open>str\<close> text unchanged.
\<close>

theorem get_indian_forecast_fail_open:
  assumes "net sent (hourly_request r lat lon) = rep"
  shows "(\<forall>f. rep = RequestFailed f
            \<longrightarrow> fst (get_indian_forecast r net lat lon sent) = Inl RequestError)
       \<and> (\<forall>status. rep = Response status None
            \<longrightarrow> fst (get_indian_forecast r net lat lon sent) = Inl JSONDecodeError)
       \<and> (\<forall>status data. rep = Response status (Some data)
            \<longrightarrow> fst (get_indian_forecast r net lat lon sent) = Inr (py_str r data))
       \<and> snd (get_indian_forecast r net lat lon sent) = sent @ [hourly_request r lat lon]"
  using assms by (auto simp: get_indian_forecast_def)

theorem get_indian_forecast_fail_open_witness:
  "fst (get_indian_forecast no_render (script [RequestFailed ConnectFailed])
          (Finite 19 0) (Finite 73 0) []) = Inl RequestError
   \<and> fst (get_indian_forecast no_render (script [Response 200 None])
          (Finite 19 0) (Finite 73 0) []) = Inl JSONDecodeError
   \<and> fst (get_indian_forecast no_render (script [Response 400 (Some (JObj [(''error'', JBool True)]))])
          (Finite 19 0) (Finite 73 0) []) = Inr (no_render (JObj [(''error'', JBool True)]))
   \<and> fst (get_indian_forecast no_render (script [ok JNull])
          (Finite 19 0) (Finite 73 0) []) = Inr ''None''"
proof -
  let ?req = "hourly_request no_render (Finite 19 0) (Finite 73 0)"
  have a: "script [RequestFailed ConnectFailed] [] ?req = RequestFailed ConnectFailed"
    by (simp add: script_def)
  have b: "script [Response 200 None] [] ?req = Response 200 None"
    by (simp add: script_def)
  have c: "script [Response 400 (Some (JObj [(''error'', JBool True)]))] [] ?req
             = Response 400 (Some (JObj [(''error'', JBool True)]))"
    by (simp add: script_def)
  have d: "script [ok JNull] [] ?req = Response 200 (Some JNull)"
    by (simp add: script_def ok_def)
  show ?thesis
    using get_indian_forecast_fail_open [of "script [RequestFailed ConnectFailed]" "[]", OF a]
      get_indian_forecast_fail_open [of "script [Response 200 None]" "[]", OF b]
      get_indian_forecast_fail_open
        [of "script [Response 400 (Some (JObj [(''error'', JBool True)]))]" "[]", OF c]
      get_indian_forecast_fail_open [of "script [ok JNull]" "[]", OF d]
    by simp
qed

end
